theory Spec2Isabelle
  imports Complex_Main
begin

section \<open>Newborn progress tracking: the analytics engine and the insight aggregator\<close>

text \<open>
  The development embeds \<^verbatim>\<open>app/services/analytics.py\<close> and the aggregation part of
  \<^verbatim>\<open>get_baby_insights\<close> in \<^verbatim>\<open>app/api/endpoints/progress.py\<close>.

  Conventions of the embedding.
  \<^item> Python floats are read as real numbers: every arithmetic step is the exact one.
    Rounding error, infinities and NaN are outside the model. The one step whose result
    the exact value does not fix, \<^verbatim>\<open>round(x, 1)\<close> on a double, is a parameter.
  \<^item> A Python exception is a value of type \<open>error\<close>; a function that may raise returns
    \<open>error + 'a\<close> with \<open>Inl\<close> for the exception.
  \<^item> A \<^verbatim>\<open>datetime\<close> is the number of microseconds on one naive wall-clock time line;
    a \<^verbatim>\<open>date\<close> is the triple of its fields.
\<close>

subsection \<open>Exceptions\<close>

datatype error = IndexError | KeyError | ZeroDivisionError | ValueError

definition ebind :: "error + 'a \<Rightarrow> ('a \<Rightarrow> error + 'b) \<Rightarrow> error + 'b" where
  "ebind m f = (case m of Inl e \<Rightarrow> Inl e | Inr v \<Rightarrow> f v)"

definition py_div :: "real \<Rightarrow> real \<Rightarrow> error + real" where
  "py_div a b = (if b = 0 then Inl ZeroDivisionError else Inr (a / b))"

definition py_nth :: "'a list \<Rightarrow> nat \<Rightarrow> error + 'a" where
  "py_nth xs i = (if i < length xs then Inr (xs ! i) else Inl IndexError)"

text \<open>\<^verbatim>\<open>xs[-1]\<close>\<close>

definition py_last :: "'a list \<Rightarrow> error + 'a" where
  "py_last xs = (if xs = [] then Inl IndexError else Inr (last xs))"

text \<open>\<^verbatim>\<open>d[k]\<close> on a dict given as the list of its items in insertion order.\<close>

definition py_lookup :: "('k \<times> 'v) list \<Rightarrow> 'k \<Rightarrow> error + 'v" where
  "py_lookup d k = (case map_of d k of None \<Rightarrow> Inl KeyError | Some v \<Rightarrow> Inr v)"

text \<open>\<^verbatim>\<open>min(xs, key=f)\<close>: the first element with the least key; an empty argument raises.\<close>

fun py_min_key :: "('a \<Rightarrow> int) \<Rightarrow> 'a list \<Rightarrow> error + 'a" where
  "py_min_key f [] = Inl ValueError"
| "py_min_key f (x # xs) = Inr (foldl (\<lambda>b a. if f a < f b then a else b) x xs)"

subsection \<open>Dates and times\<close>

record date =
  year :: int
  month :: int
  day :: int

definition is_leap :: "int \<Rightarrow> bool" where
  "is_leap y = (y mod 4 = 0 \<and> (y mod 100 \<noteq> 0 \<or> y mod 400 = 0))"

definition days_before_year :: "int \<Rightarrow> int" where
  "days_before_year y = (y - 1) * 365 + (y - 1) div 4 - (y - 1) div 100 + (y - 1) div 400"

text \<open>The days of the year before the first of month \<open>m\<close>, for \<open>1 \<le> m \<le> 12\<close>.\<close>

definition days_before_month :: "int \<Rightarrow> int \<Rightarrow> int" where
  "days_before_month y m =
     [0, 0, 31, 59, 90, 120, 151, 181, 212, 243, 273, 304, 334] ! nat m
       + (if m > 2 \<and> is_leap y then 1 else 0)"

text \<open>\<^verbatim>\<open>date.toordinal()\<close>; \<^verbatim>\<open>(a - b).days\<close> is the difference of the ordinals.\<close>

definition toordinal :: "date \<Rightarrow> int" where
  "toordinal d = days_before_year (year d) + days_before_month (year d) (month d) + day d"

definition days_between :: "date \<Rightarrow> date \<Rightarrow> int" where
  "days_between a b = toordinal a - toordinal b"

type_synonym datetime = int

definition hour :: "datetime \<Rightarrow> int" where
  "hour t = (t div 3600000000) mod 24"

text \<open>\<^verbatim>\<open>(a - b).total_seconds()\<close>\<close>

definition total_seconds :: "datetime \<Rightarrow> datetime \<Rightarrow> real" where
  "total_seconds a b = real_of_int (a - b) / 1000000"

subsection \<open>Strings\<close>

text \<open>\<^verbatim>\<open>str.lower()\<close> on ASCII letters; every other character is kept.\<close>

definition lower_char :: "char \<Rightarrow> char" where
  "lower_char c =
     (case map_of (zip ''ABCDEFGHIJKLMNOPQRSTUVWXYZ'' ''abcdefghijklmnopqrstuvwxyz'') c of
        Some l \<Rightarrow> l
      | None \<Rightarrow> c)"

definition lower :: "string \<Rightarrow> string" where
  "lower s = map lower_char s"

fun startswith :: "string \<Rightarrow> string \<Rightarrow> bool" where
  "startswith s [] = True"
| "startswith [] (p # ps) = False"
| "startswith (c # cs) (p # ps) = (c = p \<and> startswith cs ps)"

text \<open>\<^verbatim>\<open>p in s\<close> on strings: \<open>p\<close> occurs in \<open>s\<close> as a contiguous piece.\<close>

fun py_in :: "string \<Rightarrow> string \<Rightarrow> bool" where
  "py_in p [] = (p = [])"
| "py_in p (c # cs) = (startswith (c # cs) p \<or> py_in p cs)"

subsection \<open>Reference tables\<close>

definition WHO_WEIGHT_FOR_AGE :: "(string \<times> (int \<times> real list) list) list" where
  "WHO_WEIGHT_FOR_AGE =
     [(''male'',
        [(0, [2.5, 2.9, 3.3, 3.7, 4.0]),
         (1, [3.4, 3.9, 4.5, 5.1, 5.5]),
         (2, [4.3, 4.9, 5.6, 6.3, 6.8]),
         (3, [5.0, 5.7, 6.4, 7.2, 7.8])]),
      (''female'',
        [(0, [2.4, 2.8, 3.2, 3.6, 3.9]),
         (1, [3.2, 3.6, 4.2, 4.8, 5.2]),
         (2, [3.9, 4.5, 5.1, 5.8, 6.2]),
         (3, [4.5, 5.2, 5.8, 6.6, 7.1])])]"

definition WHO_HEIGHT_FOR_AGE :: "(string \<times> (int \<times> real list) list) list" where
  "WHO_HEIGHT_FOR_AGE =
     [(''male'',
        [(0, [46.1, 48.0, 49.9, 51.8, 53.4]),
         (1, [50.8, 52.8, 54.7, 56.7, 58.4])]),
      (''female'',
        [(0, [45.4, 47.3, 49.1, 51.0, 52.7]),
         (1, [49.8, 51.7, 53.7, 55.6, 57.4])])]"

definition WHO_HEAD_CIRCUMFERENCE_FOR_AGE :: "(string \<times> (int \<times> real list) list) list" where
  "WHO_HEAD_CIRCUMFERENCE_FOR_AGE =
     [(''male'', [(0, [32.4, 33.6, 34.5, 35.4, 36.1])]),
      (''female'', [(0, [31.9, 33.0, 33.9, 34.8, 35.5])])]"

text \<open>The default of the parameter \<^verbatim>\<open>percentiles\<close>.\<close>

definition ladder :: "real list" where
  "ladder = [3, 15, 50, 85, 97]"

subsection \<open>Age in months\<close>

definition calculate_age_in_months :: "date \<Rightarrow> date \<Rightarrow> int" where
  "calculate_age_in_months birth_date reference_date =
     (let months = (year reference_date - year birth_date) * 12;
          months = months + (month reference_date - month birth_date);
          months = (if day reference_date < day birth_date then months - 1 else months)
      in max 0 months)"

subsection \<open>Percentile interpolation\<close>

text \<open>
  The loop \<^verbatim>\<open>for i in range(len(standards) - 1)\<close>, over the indices still to visit.
  Each index is below \<open>length standards - 1\<close>, so both reads of \<open>standards\<close> are in range.
\<close>

fun interpolate_loop :: "real \<Rightarrow> real list \<Rightarrow> real list \<Rightarrow> nat list \<Rightarrow> error + real" where
  "interpolate_loop v standards percentiles [] = py_last percentiles"
| "interpolate_loop v standards percentiles (i # is) =
     (if standards ! i \<le> v \<and> v < standards ! (i + 1) then
        ebind (py_div (v - standards ! i) (standards ! (i + 1) - standards ! i)) (\<lambda>range_percent.
        ebind (py_nth percentiles i) (\<lambda>p_lo.
        ebind (py_nth percentiles (i + 1)) (\<lambda>p_hi.
        Inr (p_lo + range_percent * (p_hi - p_lo)))))
      else interpolate_loop v standards percentiles is)"

definition interpolate_percentile :: "real \<Rightarrow> real list \<Rightarrow> real list \<Rightarrow> error + real" where
  "interpolate_percentile v standards percentiles =
     ebind (py_nth standards 0) (\<lambda>s0.
       if v \<le> s0 then
         ebind (py_nth percentiles 0) (\<lambda>p0.
         ebind (py_div v s0) (\<lambda>q. Inr (p0 * q)))
       else
         ebind (py_last standards) (\<lambda>s_last.
           if v \<ge> s_last then py_last percentiles
           else interpolate_loop v standards percentiles [0..<length standards - 1]))"

subsection \<open>Growth scorer\<close>

record baby =
  b_id :: int
  b_name :: string
  date_of_birth :: date
  gender :: "string option"

record growth_result =
  weight_percentile :: "real option"
  height_percentile :: "real option"
  head_percentile :: "real option"
  overall_percentile :: real

text \<open>
  One of the three blocks \<^verbatim>\<open>if x is not None: result[..] = interpolate_percentile(x, T[gender][closest_month])\<close>.
\<close>

definition percentile_entry ::
  "(string \<times> (int \<times> real list) list) list \<Rightarrow> string \<Rightarrow> int \<Rightarrow> real option \<Rightarrow> error + real option" where
  "percentile_entry table g closest_month x =
     (case x of
        None \<Rightarrow> Inr None
      | Some v \<Rightarrow>
          ebind (py_lookup table g) (\<lambda>by_month.
          ebind (py_lookup by_month closest_month) (\<lambda>standards.
          ebind (interpolate_percentile v standards ladder) (\<lambda>p. Inr (Some p)))))"

text \<open>\<^verbatim>\<open>baby.gender.lower() if baby.gender else "male"\<close>: \<^verbatim>\<open>None\<close> and the empty string are falsy.\<close>

definition resolve_gender :: "string option \<Rightarrow> string" where
  "resolve_gender g = (case g of None \<Rightarrow> ''male'' | Some s \<Rightarrow> (if s = [] then ''male'' else lower s))"

definition calculate_growth_percentile ::
  "baby \<Rightarrow> real option \<Rightarrow> real option \<Rightarrow> real option \<Rightarrow> date \<Rightarrow> error + growth_result" where
  "calculate_growth_percentile b weight height head_circumference record_date =
     (let g = resolve_gender (gender b);
          age_months = calculate_age_in_months (date_of_birth b) record_date
      in ebind (py_lookup WHO_WEIGHT_FOR_AGE g) (\<lambda>weight_by_month.
         ebind (py_min_key (\<lambda>m. \<bar>m - age_months\<bar>) (map fst weight_by_month)) (\<lambda>closest_month.
         ebind (percentile_entry WHO_WEIGHT_FOR_AGE g closest_month weight) (\<lambda>wp.
         ebind (percentile_entry WHO_HEIGHT_FOR_AGE g closest_month height) (\<lambda>hp.
         ebind (percentile_entry WHO_HEAD_CIRCUMFERENCE_FOR_AGE g closest_month head_circumference) (\<lambda>cp.
         let vals = List.map_filter id [wp, hp, cp] in
         ebind (if vals \<noteq> [] then py_div (sum_list vals) (real (length vals)) else Inr 50) (\<lambda>overall.
         Inr \<lparr>weight_percentile = wp, height_percentile = hp, head_percentile = cp,
              overall_percentile = overall\<rparr>)))))))"

subsection \<open>Sleep quality scorer\<close>

text \<open>
  A sleep session as the scorer reads it. \<open>sl_quality\<close> is \<open>None\<close> when the key is missing
  (\<^verbatim>\<open>session.get("quality", "good")\<close> then gives \<^verbatim>\<open>"good"\<close>) and \<open>Some None\<close> when the key
  holds \<^verbatim>\<open>None\<close>. Time stamps are taken as already parsed.
\<close>

record sleep_session =
  sl_start :: datetime
  sl_end :: "datetime option"
  sl_quality :: "string option option"
  sl_notes :: "string option"

text \<open>The dictionaries appended to \<^verbatim>\<open>sessions\<close>.\<close>

record sleep_entry =
  se_start :: datetime
  se_end :: datetime
  se_duration :: real
  se_is_night :: bool
  se_quality :: "string option"

text \<open>One pass of the first loop; \<open>now\<close> is what \<^verbatim>\<open>datetime.now()\<close> returns.\<close>

definition sleep_entry_of :: "datetime \<Rightarrow> sleep_session \<Rightarrow> sleep_entry" where
  "sleep_entry_of now session =
     (let start = sl_start session;
          end = (case sl_end session of Some e \<Rightarrow> e | None \<Rightarrow> now)
      in \<lparr>se_start = start, se_end = end,
          se_duration = total_seconds end start / 60,
          se_is_night = (20 \<le> hour start \<or> hour start \<le> 6),
          se_quality = (case sl_quality session of None \<Rightarrow> Some ''good'' | Some q \<Rightarrow> q)\<rparr>)"

text \<open>The loop over \<^verbatim>\<open>range(len(sessions) - 1)\<close> counting gaps under 30 minutes.\<close>

fun count_interruptions :: "sleep_entry list \<Rightarrow> nat" where
  "count_interruptions (a # b # rest) =
     (if total_seconds (se_start b) (se_end a) / 60 < 30 then 1 else 0)
       + count_interruptions (b # rest)"
| "count_interruptions [a] = 0"
| "count_interruptions [] = 0"

definition quality_weight :: "string option \<Rightarrow> real" where
  "quality_weight q = (if q = Some ''good'' then 1 else if q = Some ''fair'' then 7 / 10 else 4 / 10)"

definition calculate_sleep_quality_index :: "datetime \<Rightarrow> sleep_session list \<Rightarrow> error + real" where
  "calculate_sleep_quality_index now sleep_schedule =
     (if sleep_schedule = [] then Inr 50
      else
        let entries = map (sleep_entry_of now) sleep_schedule;
            total_sleep_minutes = sum_list (map se_duration entries);
            night_sleep_minutes = sum_list (map se_duration (filter se_is_night entries));
            sessions = sort_key se_start entries;
            total_interruptions = count_interruptions sessions;
            hours_slept = total_sleep_minutes / 60
        in ebind (if total_sleep_minutes > 0 then py_div night_sleep_minutes total_sleep_minutes
                  else Inr 0) (\<lambda>night_sleep_ratio.
           ebind (py_div (sum_list (map (\<lambda>s. quality_weight (se_quality s)) sessions))
                         (real (length sessions))) (\<lambda>quality_factor.
           let interruption_factor = max (1 / 2) (1 - real total_interruptions * (1 / 10));
               duration_score = min 100 (hours_slept / 14 * 100);
               night_ratio_score = night_sleep_ratio * 100;
               continuity_score = (quality_factor * interruption_factor) * 100;
               score = duration_score * (4 / 10) + night_ratio_score * (3 / 10)
                         + continuity_score * (3 / 10)
           in Inr (min 100 (max 0 score)))))"

subsection \<open>Feeding efficiency scorer\<close>

text \<open>\<open>fd_type\<close> is \<open>None\<close> when the key is missing (read as \<^verbatim>\<open>"unknown"\<close>).\<close>

record feeding_session =
  fd_start :: datetime
  fd_end :: "datetime option"
  fd_type :: "string option"
  fd_amount :: "real option"
  fd_notes :: "string option"

record feed_entry =
  fe_start :: datetime
  fe_duration :: real
  fe_amount :: real
  fe_type :: string

definition feed_entry_of :: "feeding_session \<Rightarrow> feed_entry" where
  "feed_entry_of feed =
     \<lparr>fe_start = fd_start feed,
      fe_duration = (case fd_end feed of Some e \<Rightarrow> total_seconds e (fd_start feed) / 60 | None \<Rightarrow> 15),
      fe_amount = (case fd_amount feed of Some a \<Rightarrow> a | None \<Rightarrow> 0),
      fe_type = (case fd_type feed of Some t \<Rightarrow> t | None \<Rightarrow> ''unknown'')\<rparr>"

text \<open>Expected feeds per day and expected hours between feeds, by age.\<close>

definition expected_feeding :: "int \<Rightarrow> real \<times> real" where
  "expected_feeding baby_age_months =
     (if baby_age_months < 1 then (8, 2)
      else if baby_age_months < 3 then (7, 3)
      else if baby_age_months < 6 then (6, 7 / 2)
      else (5, 4))"

text \<open>The hours between consecutive starts.\<close>

fun start_intervals :: "feed_entry list \<Rightarrow> real list" where
  "start_intervals (a # b # rest) =
     total_seconds (fe_start b) (fe_start a) / 3600 # start_intervals (b # rest)"
| "start_intervals [a] = []"
| "start_intervals [] = []"

text \<open>The score of one feeding type around its target duration, 0.7 when the type is absent.\<close>

definition type_score :: "feed_entry list \<Rightarrow> real \<Rightarrow> error + real" where
  "type_score typed_feeds target =
     (if typed_feeds \<noteq> [] then
        ebind (py_div (sum_list (map fe_duration typed_feeds)) (real (length typed_feeds))) (\<lambda>avg.
        ebind (py_div \<bar>avg - target\<bar> target) (\<lambda>dev. Inr (1 - min 1 dev)))
      else Inr (7 / 10))"

definition calculate_feeding_efficiency :: "feeding_session list \<Rightarrow> int \<Rightarrow> error + real" where
  "calculate_feeding_efficiency feeding_times baby_age_months =
     (if feeding_times = [] then Inr 50
      else
        let expected_feeds_per_day = fst (expected_feeding baby_age_months);
            expected_feed_interval = snd (expected_feeding baby_age_months);
            entries = map feed_entry_of feeding_times;
            total_duration = sum_list (map fe_duration entries);
            feeds = sort_key fe_start entries;
            intervals = start_intervals feeds
        in ebind (if intervals \<noteq> [] then
                    ebind (py_div (sum_list (map (\<lambda>interval. \<bar>interval - expected_feed_interval\<bar>) intervals))
                                  (real (length intervals))) (\<lambda>avg_deviation.
                    ebind (py_div avg_deviation expected_feed_interval) (\<lambda>rel.
                    Inr (max 0 (1 - rel))))
                  else Inr 0) (\<lambda>interval_regularity.
           ebind (if length feeds \<ge> 2 then
                    (let time_span = total_seconds (fe_start (last feeds)) (fe_start (hd feeds)) / 3600
                     in if time_span \<ge> 12 then
                          ebind (py_div (real (length feeds)) time_span) (\<lambda>per_hour.
                          ebind (py_div \<bar>per_hour * 24 - expected_feeds_per_day\<bar> expected_feeds_per_day) (\<lambda>dev.
                          Inr (1 - min 1 dev)))
                        else Inr (7 / 10))
                  else Inr (7 / 10)) (\<lambda>feed_frequency_score.
           ebind (if feeds \<noteq> [] then py_div total_duration (real (length feeds)) else Inr 0) (\<lambda>avg_duration.
           let bottle_feeds = filter (\<lambda>f. fe_type f = ''bottle'') feeds;
               breast_feeds = filter (\<lambda>f. fe_type f = ''breast'') feeds
           in ebind (type_score bottle_feeds 15) (\<lambda>bottle_score.
              ebind (type_score breast_feeds 25) (\<lambda>breast_score.
              let duration_score =
                    (if bottle_feeds \<noteq> [] \<and> breast_feeds \<noteq> [] then (bottle_score + breast_score) / 2
                     else if bottle_feeds \<noteq> [] then bottle_score
                     else if breast_feeds \<noteq> [] then breast_score
                     else 7 / 10);
                  final_score = (interval_regularity * (4 / 10) + feed_frequency_score * (3 / 10)
                                   + duration_score * (3 / 10)) * 100
              in Inr (min 100 (max 0 final_score))))))))"

subsection \<open>Developmental scorer\<close>

text \<open>
  The value under \<^verbatim>\<open>"achieved_date"\<close>: a date, a string still to be parsed, or nothing
  that passes \<^verbatim>\<open>isinstance(.., (str, date))\<close> (the key missing, or \<^verbatim>\<open>None\<close>).
\<close>

datatype achieved = NoDate | DateVal date | DateStr string

record milestone =
  ms_milestone :: string
  ms_achieved_date :: achieved
  ms_notes :: "string option"

definition expected_milestones :: "(int \<times> string list) list" where
  "expected_milestones =
     [(1, [''responds to sounds'', ''follows objects with eyes'', ''lifts head briefly'']),
      (2, [''holds head up'', ''begins to smile'', ''coos and makes sounds'']),
      (3, [''recognizes faces'', ''reaches for objects'', ''laughs'']),
      (4, [''rolls over'', ''holds head steady'', ''pushes up on arms''])]"

text \<open>
  The inner loop of the bonus: the first catalogue month with a label matching the
  milestone decides, and the loop stops there.
\<close>

fun early_bonus :: "string \<Rightarrow> int \<Rightarrow> (int \<times> string list) list \<Rightarrow> real" where
  "early_bonus label age_when_achieved [] = 0"
| "early_bonus label age_when_achieved ((month_no, month_milestones) # rest) =
     (if list_ex (\<lambda>m. py_in (lower label) m \<or> py_in m (lower label)) month_milestones
      then (if age_when_achieved < month_no then 5 else 0)
      else early_bonus label age_when_achieved rest)"

text \<open>
  The bonus one milestone adds. \<open>fromisoformat\<close> stands for \<^verbatim>\<open>date.fromisoformat\<close>, with
  \<open>None\<close> for \<^verbatim>\<open>ValueError\<close>.
\<close>

definition milestone_bonus :: "(string \<Rightarrow> date option) \<Rightarrow> baby \<Rightarrow> milestone \<Rightarrow> real" where
  "milestone_bonus fromisoformat b m =
     (case (case ms_achieved_date m of
              NoDate \<Rightarrow> None
            | DateVal d \<Rightarrow> Some d
            | DateStr s \<Rightarrow> fromisoformat s) of
        None \<Rightarrow> 0
      | Some achieved_date \<Rightarrow>
          early_bonus (ms_milestone m) (calculate_age_in_months (date_of_birth b) achieved_date)
            expected_milestones)"

definition calculate_developmental_score ::
  "(string \<Rightarrow> date option) \<Rightarrow> milestone list \<Rightarrow> int \<Rightarrow> baby \<Rightarrow> error + real" where
  "calculate_developmental_score fromisoformat milestones baby_age_months b =
     (if milestones = [] then Inr 50
      else
        let all_expected =
              concat (map snd (filter (\<lambda>(month_no, ms). month_no \<le> baby_age_months) expected_milestones))
        in if all_expected = [] then Inr 70
           else
             let achieved = map (\<lambda>m. lower (ms_milestone m)) milestones;
                 matched = length (filter (\<lambda>expected. list_ex (\<lambda>a. py_in expected a \<or> py_in a expected) achieved)
                                     all_expected)
             in ebind (if all_expected \<noteq> [] then
                         ebind (py_div (real matched) (real (length all_expected))) (\<lambda>r. Inr (r * 100))
                       else Inr 50) (\<lambda>base_score.
                let bonus = sum_list (map (milestone_bonus fromisoformat b) milestones)
                in Inr (min 100 (base_score + bonus))))"

subsection \<open>Record processor\<close>

text \<open>
  A JSON column holds the decoded list or, in the branch \<^verbatim>\<open>isinstance(.., str)\<close>, a string
  still to be decoded.
\<close>

datatype 'a jsonb = JList "'a list" | JStr string

record diaper_change =
  dc_time :: datetime
  dc_type :: string
  dc_notes :: "string option"

record baby_progress =
  p_id :: int
  baby_id :: int
  record_date :: date
  weight :: "real option"
  height :: "real option"
  head_circumference :: "real option"
  feeding_times :: "feeding_session jsonb option"
  feeding_type :: "string option"
  feeding_amount :: "real option"
  sleep_schedule :: "sleep_session jsonb option"
  total_sleep_hours :: "real option"
  diaper_changes :: "diaper_change jsonb option"
  milestones :: "milestone jsonb option"
  p_notes :: "string option"
  growth_percentile :: "real option"
  sleep_quality_index :: "real option"
  feeding_efficiency :: "real option"
  developmental_score :: "real option"

text \<open>
  What the processor takes from outside the repository: the clock, the JSON decoder at
  each of its three uses (\<open>None\<close> when \<^verbatim>\<open>json.loads\<close> raises), the date parser, and the
  query \<^verbatim>\<open>db.query(Baby).filter(Baby.id == ..).first()\<close>.
\<close>

record env =
  now :: datetime
  loads_sleep :: "string \<Rightarrow> sleep_session list option"
  loads_feeding :: "string \<Rightarrow> feeding_session list option"
  loads_milestones :: "string \<Rightarrow> milestone list option"
  date_fromisoformat :: "string \<Rightarrow> date option"
  query_baby :: "int \<Rightarrow> baby option"

text \<open>Truth value of a JSON column: \<^verbatim>\<open>None\<close>, the empty list and the empty string are falsy.\<close>

definition json_truthy :: "'a jsonb option \<Rightarrow> bool" where
  "json_truthy j = (case j of None \<Rightarrow> False | Some (JList xs) \<Rightarrow> xs \<noteq> [] | Some (JStr s) \<Rightarrow> s \<noteq> [])"

text \<open>The decoding \<^verbatim>\<open>try: x = json.loads(x) except: x = []\<close> of a string value.\<close>

definition json_data :: "(string \<Rightarrow> 'a list option) \<Rightarrow> 'a jsonb \<Rightarrow> 'a list" where
  "json_data loads j =
     (case j of JList xs \<Rightarrow> xs | JStr s \<Rightarrow> (case loads s of None \<Rightarrow> [] | Some xs \<Rightarrow> xs))"

text \<open>The four blocks of the processor, each writing one derived field.\<close>

definition growth_step :: "baby \<Rightarrow> baby_progress \<Rightarrow> error + baby_progress" where
  "growth_step b progress =
     (if weight progress \<noteq> None \<or> height progress \<noteq> None \<or> head_circumference progress \<noteq> None
      then ebind (calculate_growth_percentile b (weight progress) (height progress)
                    (head_circumference progress) (record_date progress)) (\<lambda>growth_data.
           Inr (progress\<lparr>growth_percentile := Some (overall_percentile growth_data)\<rparr>))
      else Inr progress)"

definition sleep_step :: "env \<Rightarrow> baby_progress \<Rightarrow> error + baby_progress" where
  "sleep_step e progress =
     (case sleep_schedule progress of
        None \<Rightarrow> Inr progress
      | Some sleep_data \<Rightarrow>
          if json_truthy (Some sleep_data) then
            ebind (calculate_sleep_quality_index (now e) (json_data (loads_sleep e) sleep_data)) (\<lambda>v.
            Inr (progress\<lparr>sleep_quality_index := Some v\<rparr>))
          else Inr progress)"

definition feeding_step :: "env \<Rightarrow> int \<Rightarrow> baby_progress \<Rightarrow> error + baby_progress" where
  "feeding_step e baby_age_months progress =
     (case feeding_times progress of
        None \<Rightarrow> Inr progress
      | Some feeding_data \<Rightarrow>
          if json_truthy (Some feeding_data) then
            ebind (calculate_feeding_efficiency (json_data (loads_feeding e) feeding_data)
                     baby_age_months) (\<lambda>v.
            Inr (progress\<lparr>feeding_efficiency := Some v\<rparr>))
          else Inr progress)"

definition development_step :: "env \<Rightarrow> int \<Rightarrow> baby \<Rightarrow> baby_progress \<Rightarrow> error + baby_progress" where
  "development_step e baby_age_months b progress =
     (case milestones progress of
        None \<Rightarrow> Inr progress
      | Some milestone_data \<Rightarrow>
          if json_truthy (Some milestone_data) then
            ebind (calculate_developmental_score (date_fromisoformat e)
                     (json_data (loads_milestones e) milestone_data) baby_age_months b) (\<lambda>v.
            Inr (progress\<lparr>developmental_score := Some v\<rparr>))
          else Inr progress)"

definition process_baby_progress :: "env \<Rightarrow> baby_progress \<Rightarrow> baby option \<Rightarrow> error + baby_progress" where
  "process_baby_progress e progress baby_arg =
     (case (case baby_arg of None \<Rightarrow> query_baby e (baby_id progress) | Some b \<Rightarrow> Some b) of
        None \<Rightarrow> Inr progress
      | Some b \<Rightarrow>
          let baby_age_months = calculate_age_in_months (date_of_birth b) (record_date progress)
          in ebind (growth_step b progress) (\<lambda>p1.
             ebind (sleep_step e p1) (\<lambda>p2.
             ebind (feeding_step e baby_age_months p2) (\<lambda>p3.
             development_step e baby_age_months b p3))))"

subsection \<open>Insight aggregator\<close>

text \<open>Truth value of an optional number: \<^verbatim>\<open>None\<close> and \<^verbatim>\<open>0.0\<close> are falsy.\<close>

definition truthy :: "real option \<Rightarrow> bool" where
  "truthy x = (case x of None \<Rightarrow> False | Some v \<Rightarrow> v \<noteq> 0)"

text \<open>\<^verbatim>\<open>x or 0\<close>\<close>

definition or_zero :: "real option \<Rightarrow> real" where
  "or_zero x = (case x of None \<Rightarrow> 0 | Some v \<Rightarrow> v)"

text \<open>
  The query of the endpoint: the rows of the baby, cut to the time frame, by record date.
\<close>

definition query_progress :: "date \<Rightarrow> string \<Rightarrow> int \<Rightarrow> baby_progress list \<Rightarrow> baby_progress list" where
  "query_progress today timeframe bid table =
     (let rows = filter (\<lambda>r. baby_id r = bid) table;
          rows = (if timeframe = ''week''
                  then filter (\<lambda>r. toordinal (record_date r) \<ge> toordinal today - 7) rows
                  else if timeframe = ''month''
                  then filter (\<lambda>r. toordinal (record_date r) \<ge> toordinal today - 30) rows
                  else rows)
      in sort_key (\<lambda>r. toordinal (record_date r)) rows)"

text \<open>
  \<^verbatim>\<open>sum(r.f or 0 for r in rs if r.f) / len([r for r in rs if r.f]) if any(r.f for r in rs) else None\<close>
\<close>

definition average_of :: "(baby_progress \<Rightarrow> real option) \<Rightarrow> baby_progress list \<Rightarrow> error + real option" where
  "average_of f progress_records =
     (if list_ex (\<lambda>r. truthy (f r)) progress_records then
        ebind (py_div (sum_list (map (\<lambda>r. or_zero (f r)) (filter (\<lambda>r. truthy (f r)) progress_records)))
                      (real (length (filter (\<lambda>r. truthy (f r)) progress_records)))) (\<lambda>a. Inr (Some a))
      else Inr None)"

text \<open>The trend expression of the sleep and of the feeding section.\<close>

definition trend :: "real option \<Rightarrow> real option \<Rightarrow> string" where
  "trend first_v last_v =
     (if truthy last_v \<and> truthy first_v \<and> or_zero last_v > or_zero first_v then ''improving''
      else if truthy last_v \<and> truthy first_v \<and> or_zero last_v < or_zero first_v then ''declining''
      else ''stable'')"

text \<open>The trend expression of the development section.\<close>

definition development_trend :: "real option \<Rightarrow> real option \<Rightarrow> string" where
  "development_trend first_v last_v =
     (if truthy last_v \<and> truthy first_v \<and> or_zero last_v > or_zero first_v then ''improving''
      else if truthy last_v \<and> truthy first_v \<and> or_zero last_v = or_zero first_v then ''stable''
      else if truthy last_v then ''as expected''
      else ''not enough data'')"

text \<open>
  One of the three rate blocks: \<^verbatim>\<open>if first.x and last.x: .. = round((last.x - first.x) / days_diff * .., 1)\<close>.

  \<open>rounding\<close> stands for \<^verbatim>\<open>round(.., 1)\<close>. The code applies it to the double that the
  floating-point evaluation of the product leaves, and a product within rounding error
  of a tie between two tenths may go to either of them; what it returns is therefore
  not derived from the exact product here, and the function is a parameter. Closed
  statements below pass the rounding half up of the exact real,
  \<open>\<lambda>x. real_of_int \<lfloor>x * 10 + 1 / 2\<rfloor> / 10\<close>, as a sample argument.
\<close>

definition gain_rate ::
  "(real \<Rightarrow> real) \<Rightarrow> real option \<Rightarrow> real option \<Rightarrow> int \<Rightarrow> (real \<Rightarrow> real) \<Rightarrow> error + real option" where
  "gain_rate rounding first_v last_v days_diff scale =
     (if truthy first_v \<and> truthy last_v then
        ebind (py_div (or_zero last_v - or_zero first_v) (real_of_int days_diff)) (\<lambda>gain_per_day.
        Inr (Some (rounding (scale gain_per_day))))
      else Inr None)"

record snapshot =
  snap_date :: date
  snap_weight :: "real option"
  snap_height :: "real option"
  snap_head_circumference :: "real option"

record insights =
  total_records :: nat
  timeframe_echo :: string
  baby_age_months_now :: int
  first_record :: snapshot
  latest_record :: snapshot
  average_percentile :: "real option"
  sleep_average_quality :: "real option"
  sleep_trend :: string
  feeding_average_efficiency :: "real option"
  feeding_trend :: string
  development_average_score :: "real option"
  development_trend_label :: string
  weight_gain_per_week :: "real option"
  height_gain_per_month :: "real option"
  head_circumference_gain_per_month :: "real option"

definition snapshot_of :: "baby_progress \<Rightarrow> snapshot" where
  "snapshot_of r = \<lparr>snap_date = record_date r, snap_weight = weight r, snap_height = height r,
                    snap_head_circumference = head_circumference r\<rparr>"

text \<open>
  The body of \<^verbatim>\<open>get_baby_insights\<close> from the query result on; \<open>None\<close> is the answer
  \<^verbatim>\<open>"No progress data available for the selected timeframe"\<close>.
\<close>

definition aggregate ::
  "(real \<Rightarrow> real) \<Rightarrow> date \<Rightarrow> baby \<Rightarrow> string \<Rightarrow> baby_progress list \<Rightarrow> error + insights option" where
  "aggregate rounding today b timeframe progress_records =
     (if progress_records = [] then Inr None
      else
        let first = hd progress_records; latest = last progress_records in
        ebind (average_of growth_percentile progress_records) (\<lambda>avg_growth.
        ebind (average_of sleep_quality_index progress_records) (\<lambda>avg_sleep.
        ebind (average_of feeding_efficiency progress_records) (\<lambda>avg_feeding.
        ebind (average_of developmental_score progress_records) (\<lambda>avg_development.
        let days_diff = days_between (record_date latest) (record_date first);
            rates = (length progress_records \<ge> 2 \<and> days_diff > 0) in
        ebind (if rates then gain_rate rounding (weight first) (weight latest) days_diff (\<lambda>g. g * 7 * 1000)
               else Inr None) (\<lambda>weight_rate.
        ebind (if rates then gain_rate rounding (height first) (height latest) days_diff (\<lambda>g. g * 30)
               else Inr None) (\<lambda>height_rate.
        ebind (if rates then gain_rate rounding (head_circumference first) (head_circumference latest) days_diff
                         (\<lambda>g. g * 30)
               else Inr None) (\<lambda>head_rate.
        Inr (Some
          \<lparr>total_records = length progress_records,
           timeframe_echo = timeframe,
           baby_age_months_now = (year today - year (date_of_birth b)) * 12
                                   + (month today - month (date_of_birth b)),
           first_record = snapshot_of first,
           latest_record = snapshot_of latest,
           average_percentile = avg_growth,
           sleep_average_quality = avg_sleep,
           sleep_trend = trend (sleep_quality_index first) (sleep_quality_index latest),
           feeding_average_efficiency = avg_feeding,
           feeding_trend = trend (feeding_efficiency first) (feeding_efficiency latest),
           development_average_score = avg_development,
           development_trend_label =
             development_trend (developmental_score first) (developmental_score latest),
           weight_gain_per_week = weight_rate,
           height_gain_per_month = height_rate,
           head_circumference_gain_per_month = head_rate\<rparr>)))))))))"

definition get_baby_insights ::
  "(real \<Rightarrow> real) \<Rightarrow> date \<Rightarrow> baby \<Rightarrow> string \<Rightarrow> baby_progress list \<Rightarrow> error + insights option" where
  "get_baby_insights rounding today b timeframe table =
     aggregate rounding today b timeframe (query_progress today timeframe (b_id b) table)"

subsection \<open>Sample inputs\<close>

text \<open>The baby and the record of the repository's API test, on fixed dates 60 days apart.\<close>

definition test_baby :: baby where
  "test_baby = \<lparr>b_id = 1, b_name = ''Baby Test'',
                 date_of_birth = \<lparr>year = 2024, month = 1, day = 1\<rparr>, gender = Some ''female''\<rparr>"

definition blank_progress :: "date \<Rightarrow> baby_progress" where
  "blank_progress d =
     \<lparr>p_id = 1, baby_id = 1, record_date = d, weight = None, height = None,
      head_circumference = None, feeding_times = None, feeding_type = None, feeding_amount = None,
      sleep_schedule = None, total_sleep_hours = None, diaper_changes = None, milestones = None,
      p_notes = None, growth_percentile = None, sleep_quality_index = None,
      feeding_efficiency = None, developmental_score = None\<rparr>"

text \<open>An environment whose decoders and parser reject every string and whose query finds nothing.\<close>

definition env_at :: "datetime \<Rightarrow> env" where
  "env_at t = \<lparr>now = t, loads_sleep = (\<lambda>s. None), loads_feeding = (\<lambda>s. None),
               loads_milestones = (\<lambda>s. None), date_fromisoformat = (\<lambda>s. None),
               query_baby = (\<lambda>i. None)\<rparr>"

text \<open>A sleep session that began at 22:00 on the first day of the time line and is still open.\<close>

definition open_session :: sleep_session where
  "open_session = \<lparr>sl_start = 79200000000, sl_end = None, sl_quality = Some (Some ''good''),
                    sl_notes = None\<rparr>"

subsection \<open>Closed forms used in the statements\<close>

text \<open>The mean over the records whose field is truthy, unset when there is none.\<close>

abbreviation truthy_mean :: "(baby_progress \<Rightarrow> real option) \<Rightarrow> baby_progress list \<Rightarrow> real option" where
  "truthy_mean f rs \<equiv>
     (if list_ex (\<lambda>r. truthy (f r)) rs
      then Some (sum_list (map (\<lambda>r. or_zero (f r)) (filter (\<lambda>r. truthy (f r)) rs))
                   / real (length (filter (\<lambda>r. truthy (f r)) rs)))
      else None)"

text \<open>The rounded two-point rate, unset unless the guard and both end values are truthy.\<close>

abbreviation rate_value ::
  "(real \<Rightarrow> real) \<Rightarrow> bool \<Rightarrow> real option \<Rightarrow> real option \<Rightarrow> int \<Rightarrow> (real \<Rightarrow> real) \<Rightarrow> real option" where
  "rate_value rounding c x y d sc \<equiv>
     (if c \<and> 0 < d \<and> truthy x \<and> truthy y
      then Some (rounding (sc ((or_zero y - or_zero x) / real_of_int d))) else None)"

section \<open>Properties\<close>

subsection \<open>Auxiliary facts\<close>

lemma ebind_Inr: "ebind (Inr v) f = f v"
  by (simp add: ebind_def)

lemma ebind_Inl: "ebind (Inl e) f = Inl e"
  by (simp add: ebind_def)

lemma py_div_ok: "b \<noteq> 0 \<Longrightarrow> py_div a b = Inr (a / b)"
  by (simp add: py_div_def)

lemma upt_four: "[0..<4] = [0, 1, 2, 3]"
  by (simp add: upt_rec)

lemma five_elements:
  assumes "length xs = 5"
  obtains a b c d e where "xs = [a, b, c, d, e]"
proof -
  from assms obtain a r1 where 1: "xs = a # r1" and "length r1 = 4"
    by (cases xs) auto
  then obtain b r2 where 2: "r1 = b # r2" and "length r2 = 3"
    by (cases r1) auto
  then obtain c r3 where 3: "r2 = c # r3" and "length r3 = 2"
    by (cases r2) auto
  then obtain d r4 where 4: "r3 = d # r4" and "length r4 = 1"
    by (cases r3) auto
  then obtain e where 5: "r4 = [e]"
    by (cases r4) auto
  from 1 2 3 4 5 have "xs = [a, b, c, d, e]" by simp
  then show thesis by (rule that)
qed

lemmas interpolate_defs =
  interpolate_percentile_def ebind_def py_nth_def py_last_def py_div_def ladder_def upt_four

subsection \<open>Percentile interpolator\<close>

text \<open>
  Claim C5, as amended. The interpolator never looks at the order of the anchors. On
  every 5-point anchor sequence, ordered or not, it returns a number computed by its
  first matching branch; its only failure is the division by zero when the value is at
  or below a first anchor that is zero. No check rejects a sequence that is not
  non-decreasing.
\<close>

theorem interpolate_percentile_unchecked:
  assumes "length standards = 5"
  shows "if v \<le> standards ! 0 \<and> standards ! 0 = 0
         then interpolate_percentile v standards ladder = Inl ZeroDivisionError
         else \<exists>p. interpolate_percentile v standards ladder = Inr p"
proof -
  from assms obtain a b c d e where st: "standards = [a, b, c, d, e]"
    by (rule five_elements)
  show ?thesis
    by (auto simp: st interpolate_defs)
qed

theorem interpolate_percentile_unchecked_witness:
  "length [5, 4, 3, 2, 1 :: real] = 5 \<and> \<not> sorted [5, 4, 3, 2, 1 :: real]
   \<and> (\<exists>p. interpolate_percentile 3 [5, 4, 3, 2, 1] ladder = Inr p)"
  using interpolate_percentile_unchecked [of "[5, 4, 3, 2, 1]" 3] by simp

text \<open>
  Claim C5 as stated fails: on the decreasing anchors 5, 4, 3, 2, 1 the value 3 is
  answered with the percentile 9/5 and no error.
\<close>

theorem interpolate_percentile_decreasing_anchors:
  "\<not> sorted [5, 4, 3, 2, 1 :: real]
   \<and> interpolate_percentile 3 [5, 4, 3, 2, 1] ladder = Inr (9 / 5)"
  by (simp add: interpolate_defs)

text \<open>
  Claim C6, as amended. For every strictly increasing 5-point anchor sequence and the
  ladder 3, 15, 50, 85, 97, the interpolator applied to an interior anchor
  (index 1, 2 or 3) returns exactly the ladder value of that index.
\<close>

theorem interpolate_percentile_at_interior_anchor:
  assumes "length standards = 5" and "sorted_wrt (<) standards" and "0 < i" and "i < 4"
  shows "interpolate_percentile (standards ! i) standards ladder = Inr (ladder ! i)"
proof -
  from assms(1) obtain a b c d e where st: "standards = [a, b, c, d, e]"
    by (rule five_elements)
  from assms(2) st have ord: "a < b" "b < c" "c < d" "d < e"
    by auto
  from assms(3,4) have "i = 1 \<or> i = 2 \<or> i = 3"
    by arith
  then show ?thesis
    using ord by (auto simp: st interpolate_defs)
qed

theorem interpolate_percentile_at_interior_anchor_witness:
  "length [2.5, 2.9, 3.3, 3.7, 4.0 :: real] = 5 \<and> sorted_wrt (<) [2.5, 2.9, 3.3, 3.7, 4.0 :: real]
   \<and> (0::nat) < 2 \<and> (2::nat) < 4
   \<and> interpolate_percentile ([2.5, 2.9, 3.3, 3.7, 4.0] ! 2) [2.5, 2.9, 3.3, 3.7, 4.0] ladder
       = Inr (ladder ! 2)"
  using interpolate_percentile_at_interior_anchor [of "[2.5, 2.9, 3.3, 3.7, 4.0]" 2] by simp

text \<open>
  Claim C6 as stated fails on anchors that are non-decreasing with a repeated value:
  with anchors 1, 1, 2, 3, 4 the anchor of index 1 is answered with 3, the bottom rung,
  where the ladder has 15.
\<close>

theorem interpolate_percentile_repeated_anchor:
  "sorted [1, 1, 2, 3, 4 :: real]
   \<and> interpolate_percentile ([1, 1, 2, 3, 4] ! 1) [1, 1, 2, 3, 4] ladder = Inr 3
   \<and> ladder ! 1 = 15"
  by (simp add: interpolate_defs)

subsection \<open>The scorers never divide by zero\<close>

lemma Inr_total: "\<exists>v. Inr x = (Inr v :: error + 'a)"
  by blast

lemma ebind_total:
  "\<exists>v. m = Inr v \<Longrightarrow> (\<And>v. \<exists>w. f v = Inr w) \<Longrightarrow> \<exists>w. ebind m f = Inr w"
  by (auto simp: ebind_def)

lemma if_total:
  "(c \<Longrightarrow> \<exists>v. a = Inr v) \<Longrightarrow> (\<not> c \<Longrightarrow> \<exists>v. b = Inr v) \<Longrightarrow> \<exists>v. (if c then a else b) = Inr v"
  by simp

lemma py_div_total: "b \<noteq> 0 \<Longrightarrow> \<exists>v. py_div a b = Inr v"
  by (simp add: py_div_def)

lemma sleep_total: "\<exists>v. calculate_sleep_quality_index t ss = Inr v"
  by (cases "ss = []") (simp_all add: calculate_sleep_quality_index_def Let_def py_div_ok ebind_Inr)

lemma type_score_eq:
  "0 < target \<Longrightarrow> type_score fs target =
     Inr (if fs \<noteq> []
          then 1 - min 1 (\<bar>sum_list (map fe_duration fs) / real (length fs) - target\<bar> / target)
          else 7 / 10)"
  by (cases "fs = []") (simp_all add: type_score_def py_div_ok ebind_Inr)

lemma type_score_total: "0 < target \<Longrightarrow> \<exists>v. type_score fs target = Inr v"
  by (simp add: type_score_eq)

lemma expected_feeding_pos: "0 < fst (expected_feeding a)" "0 < snd (expected_feeding a)"
  by (simp_all add: expected_feeding_def)

lemma feeding_total: "\<exists>v. calculate_feeding_efficiency fs a = Inr v"
proof -
  have e1: "fst (expected_feeding a) \<noteq> 0" and e2: "snd (expected_feeding a) \<noteq> 0"
    using expected_feeding_pos[of a] by simp_all
  show ?thesis
    unfolding calculate_feeding_efficiency_def Let_def
    apply (intro if_total ebind_total Inr_total py_div_total type_score_total)
    apply (simp_all add: e1 e2)
    done
qed

lemma developmental_total: "\<exists>v. calculate_developmental_score parse ms a b = Inr v"
  by (simp add: calculate_developmental_score_def Let_def py_div_ok ebind_Inr)

lemma average_of_eq: "average_of f rs = Inr (truthy_mean f rs)"
proof (cases "list_ex (\<lambda>r. truthy (f r)) rs")
  case True
  then have "filter (\<lambda>r. truthy (f r)) rs \<noteq> []"
    by (auto simp: list_ex_iff filter_empty_conv)
  then show ?thesis
    using True by (simp add: average_of_def py_div_ok ebind_Inr)
next
  case False
  then show ?thesis
    by (simp add: average_of_def)
qed

lemma guarded_gain_rate:
  "(if c \<and> 0 < d then gain_rate rounding x y d sc else Inr None) = Inr (rate_value rounding c x y d sc)"
  by (simp add: gain_rate_def py_div_ok ebind_Inr)

text \<open>The summary of a non-empty record sequence, field by field.\<close>

lemma aggregate_eq:
  assumes "rs \<noteq> []"
  shows "aggregate rounding today b tf rs = Inr (Some
          \<lparr>total_records = length rs,
           timeframe_echo = tf,
           baby_age_months_now = (year today - year (date_of_birth b)) * 12
                                   + (month today - month (date_of_birth b)),
           first_record = snapshot_of (hd rs),
           latest_record = snapshot_of (last rs),
           average_percentile = truthy_mean growth_percentile rs,
           sleep_average_quality = truthy_mean sleep_quality_index rs,
           sleep_trend = trend (sleep_quality_index (hd rs)) (sleep_quality_index (last rs)),
           feeding_average_efficiency = truthy_mean feeding_efficiency rs,
           feeding_trend = trend (feeding_efficiency (hd rs)) (feeding_efficiency (last rs)),
           development_average_score = truthy_mean developmental_score rs,
           development_trend_label =
             development_trend (developmental_score (hd rs)) (developmental_score (last rs)),
           weight_gain_per_week =
             rate_value rounding (2 \<le> length rs) (weight (hd rs)) (weight (last rs))
               (days_between (record_date (last rs)) (record_date (hd rs))) (\<lambda>g. g * 7 * 1000),
           height_gain_per_month =
             rate_value rounding (2 \<le> length rs) (height (hd rs)) (height (last rs))
               (days_between (record_date (last rs)) (record_date (hd rs))) (\<lambda>g. g * 30),
           head_circumference_gain_per_month =
             rate_value rounding (2 \<le> length rs) (head_circumference (hd rs)) (head_circumference (last rs))
               (days_between (record_date (last rs)) (record_date (hd rs))) (\<lambda>g. g * 30)\<rparr>)"
  using assms
  by (simp add: aggregate_def Let_def average_of_eq[of growth_percentile]
        average_of_eq[of sleep_quality_index] average_of_eq[of feeding_efficiency]
        average_of_eq[of developmental_score] ebind_Inr guarded_gain_rate)

lemma aggregate_total: "\<exists>r. aggregate rounding today b tf rs = Inr r"
  by (cases "rs = []") (simp_all add: aggregate_eq, simp add: aggregate_def)

text \<open>
  Claim C7. Each of the three list scorers answers the empty list with 50. No division
  inside the scorers or the aggregator can raise: with any session, feeding or milestone
  list, and any record sequence, the result is a value, never an exception. A sleep
  session of zero minutes (total sleep zero) gets the night ratio 0, so its score is the
  continuity part alone; two records on the same day (zero elapsed days) get no rate.
\<close>

theorem sentinels_and_guarded_divisions:
  "calculate_sleep_quality_index t [] = Inr 50
   \<and> calculate_feeding_efficiency [] age = Inr 50
   \<and> calculate_developmental_score parse [] age b = Inr 50
   \<and> (\<exists>v. calculate_sleep_quality_index t ss = Inr v)
   \<and> (\<exists>v. calculate_feeding_efficiency fs age = Inr v)
   \<and> (\<exists>v. calculate_developmental_score parse ms age b = Inr v)
   \<and> (\<exists>r. aggregate rounding today b tf rs = Inr r)
   \<and> calculate_sleep_quality_index t
        [\<lparr>sl_start = s, sl_end = Some s, sl_quality = Some q, sl_notes = n\<rparr>]
       = Inr (quality_weight q * 30)
   \<and> map_sum id (map_option (\<lambda>i. (weight_gain_per_week i, height_gain_per_month i,
                                    head_circumference_gain_per_month i)))
        (aggregate rounding today b tf [r, r]) = Inr (Some (None, None, None))"
proof -
  have zero: "calculate_sleep_quality_index t
        [\<lparr>sl_start = s, sl_end = Some s, sl_quality = Some q, sl_notes = n\<rparr>]
       = Inr (quality_weight q * 30)"
    by (simp add: calculate_sleep_quality_index_def sleep_entry_of_def total_seconds_def
          py_div_ok ebind_Inr Let_def quality_weight_def)
  have same_day: "map_sum id (map_option (\<lambda>i. (weight_gain_per_week i, height_gain_per_month i,
                                    head_circumference_gain_per_month i)))
        (aggregate rounding today b tf [r, r]) = Inr (Some (None, None, None))"
    by (simp add: aggregate_eq days_between_def)
  show ?thesis
    using sleep_total [of t ss] feeding_total [of fs age] developmental_total [of parse ms age b]
      aggregate_total [of rounding today b tf rs] zero same_day
    by (simp add: calculate_sleep_quality_index_def calculate_feeding_efficiency_def
          calculate_developmental_score_def)
qed

subsection \<open>Growth scorer\<close>

lemmas growth_defs =
  calculate_growth_percentile_def resolve_gender_def lower_def lower_char_def
  py_lookup_def percentile_entry_def calculate_age_in_months_def
  WHO_WEIGHT_FOR_AGE_def WHO_HEIGHT_FOR_AGE_def WHO_HEAD_CIRCUMFERENCE_FOR_AGE_def
  Let_def test_baby_def List.map_filter_def

text \<open>
  Claim C2, at the input of the repository's own API test: a girl born 60 days before
  the record date, with weight 5.2, height 57.5 and head circumference 38.2. The month
  nearest to her age is chosen among the months of the weight table (here 2) and then
  used as a key of the height table, which has the months 0 and 1 only: the scorer
  raises \<^verbatim>\<open>KeyError\<close> instead of returning percentiles.
\<close>

theorem growth_scorer_raises_on_test_record:
  "calculate_age_in_months (date_of_birth test_baby) \<lparr>year = 2024, month = 3, day = 1\<rparr> = 2
   \<and> calculate_growth_percentile test_baby (Some 5.2) (Some 57.5) (Some 38.2)
        \<lparr>year = 2024, month = 3, day = 1\<rparr> = Inl KeyError
   \<and> calculate_growth_percentile test_baby None (Some 57.5) None
        \<lparr>year = 2024, month = 3, day = 1\<rparr> = Inl KeyError
   \<and> calculate_growth_percentile test_baby None None (Some 38.2)
        \<lparr>year = 2024, month = 3, day = 1\<rparr> = Inl KeyError"
  by (simp add: growth_defs interpolate_defs)

text \<open>With the weight alone the same baby is scored: the weight table has her month.\<close>

lemma growth_scorer_weight_only:
  "calculate_growth_percentile test_baby (Some 5.2) None None \<lparr>year = 2024, month = 3, day = 1\<rparr>
     = Inr \<lparr>weight_percentile = Some 55, height_percentile = None, head_percentile = None,
            overall_percentile = 55\<rparr>"
  by (simp add: growth_defs interpolate_defs)

text \<open>
  Claim C3, at the gender \<^verbatim>\<open>"other"\<close>. An absent or empty gender is read as male and the
  letter case is ignored, but a gender that is neither male nor female is kept as it
  is, and the lookup in the weight table raises \<^verbatim>\<open>KeyError\<close>: the male tables are not
  used.
\<close>

theorem growth_scorer_raises_on_unrecognised_gender:
  "resolve_gender None = ''male'' \<and> resolve_gender (Some []) = ''male''
   \<and> resolve_gender (Some ''FeMale'') = ''female''
   \<and> resolve_gender (Some ''other'') = ''other''
   \<and> calculate_growth_percentile (test_baby\<lparr>gender := Some ''other''\<rparr>) (Some 4) None None
        \<lparr>year = 2024, month = 1, day = 1\<rparr> = Inl KeyError"
  by (simp add: growth_defs interpolate_defs)

subsection \<open>Insight aggregator\<close>

text \<open>
  Claim C1, as amended. For a non-empty record sequence whose first and last
  developmental scores, where set, are not zero: when both are set the trend is
  \<^verbatim>\<open>improving\<close> if last > first, \<^verbatim>\<open>stable\<close> if they are equal and \<^verbatim>\<open>as expected\<close> if
  last < first (the development section has no label \<^verbatim>\<open>declining\<close>); it is \<^verbatim>\<open>as expected\<close>
  when only the last is set, and \<^verbatim>\<open>not enough data\<close> whenever the last is unset.
\<close>

theorem development_trend_classification:
  assumes "rs \<noteq> []"
    and "developmental_score (hd rs) \<noteq> Some 0"
    and "developmental_score (last rs) \<noteq> Some 0"
  shows "\<exists>ins. aggregate rounding today b tf rs = Inr (Some ins)
           \<and> development_trend_label ins =
               (case developmental_score (last rs) of
                  None \<Rightarrow> ''not enough data''
                | Some l \<Rightarrow>
                    (case developmental_score (hd rs) of
                       None \<Rightarrow> ''as expected''
                     | Some f \<Rightarrow> if l > f then ''improving''
                                else if l = f then ''stable'' else ''as expected''))"
  using assms(2,3)
  by (auto simp add: aggregate_eq[OF assms(1)] development_trend_def truthy_def or_zero_def
        split: option.splits)

theorem development_trend_classification_witness:
  "[(blank_progress \<lparr>year = 2024, month = 1, day = 1\<rparr>)\<lparr>developmental_score := Some 60\<rparr>,
    (blank_progress \<lparr>year = 2024, month = 1, day = 15\<rparr>)\<lparr>developmental_score := Some 80\<rparr>] \<noteq> []
   \<and> (\<exists>ins. aggregate (\<lambda>x. real_of_int \<lfloor>x * 10 + 1 / 2\<rfloor> / 10)
            \<lparr>year = 2024, month = 3, day = 1\<rparr> test_baby ''all''
          [(blank_progress \<lparr>year = 2024, month = 1, day = 1\<rparr>)\<lparr>developmental_score := Some 60\<rparr>,
           (blank_progress \<lparr>year = 2024, month = 1, day = 15\<rparr>)\<lparr>developmental_score := Some 80\<rparr>]
            = Inr (Some ins)
          \<and> development_trend_label ins = ''improving'')"
  using development_trend_classification
    [where rs = "[(blank_progress \<lparr>year = 2024, month = 1, day = 1\<rparr>)\<lparr>developmental_score := Some 60\<rparr>,
          (blank_progress \<lparr>year = 2024, month = 1, day = 15\<rparr>)\<lparr>developmental_score := Some 80\<rparr>]"
       and today = "\<lparr>year = 2024, month = 3, day = 1\<rparr>" and b = test_baby and tf = "''all''"
       and rounding = "\<lambda>x. real_of_int \<lfloor>x * 10 + 1 / 2\<rfloor> / 10"]
  by simp

text \<open>
  Claim C1 as stated fails: with the developmental scores 80 on the first and 60 on
  the last record, both set and last < first, the trend is \<^verbatim>\<open>as expected\<close>, not
  \<^verbatim>\<open>declining\<close>.
\<close>

theorem development_trend_never_declining:
  "developmental_score
     (hd [(blank_progress \<lparr>year = 2024, month = 1, day = 1\<rparr>)\<lparr>developmental_score := Some 80\<rparr>,
          (blank_progress \<lparr>year = 2024, month = 1, day = 15\<rparr>)\<lparr>developmental_score := Some 60\<rparr>])
     = Some 80
   \<and> developmental_score
     (last [(blank_progress \<lparr>year = 2024, month = 1, day = 1\<rparr>)\<lparr>developmental_score := Some 80\<rparr>,
            (blank_progress \<lparr>year = 2024, month = 1, day = 15\<rparr>)\<lparr>developmental_score := Some 60\<rparr>])
     = Some 60
   \<and> map_sum id (map_option development_trend_label)
        (aggregate (\<lambda>x. real_of_int \<lfloor>x * 10 + 1 / 2\<rfloor> / 10)
            \<lparr>year = 2024, month = 3, day = 1\<rparr> test_baby ''all''
          [(blank_progress \<lparr>year = 2024, month = 1, day = 1\<rparr>)\<lparr>developmental_score := Some 80\<rparr>,
           (blank_progress \<lparr>year = 2024, month = 1, day = 15\<rparr>)\<lparr>developmental_score := Some 60\<rparr>])
       = Inr (Some ''as expected'')
   \<and> ''as expected'' \<noteq> ''declining''"
  by (simp add: aggregate_eq development_trend_def truthy_def or_zero_def)

text \<open>
  Claim C8. In every summary each of the three growth rates is set exactly when there
  are at least two records, the last record is dated after the first, and both end
  values are truthy. The number handed to the rounding step is then the two-point
  difference of the end values over the days between them, scaled (weight: times 7
  and 1000, grams per week; height and head circumference: times 30), and the rate is
  what the rounding step returns for it. Records on day 0 with 5.0 kg and day 14 with
  5.3 kg have the quotient 150 grams per week, reported as 150 by a rounding that
  leaves 150 as it is.
\<close>

theorem growth_rates_two_point:
  assumes "aggregate rounding today b tf rs = Inr (Some ins)"
  shows "weight_gain_per_week ins =
           (if 2 \<le> length rs \<and> 0 < days_between (record_date (last rs)) (record_date (hd rs))
               \<and> truthy (weight (hd rs)) \<and> truthy (weight (last rs))
            then Some (rounding ((or_zero (weight (last rs)) - or_zero (weight (hd rs)))
                         / real_of_int (days_between (record_date (last rs)) (record_date (hd rs)))
                         * 7 * 1000))
            else None)
         \<and> height_gain_per_month ins =
           (if 2 \<le> length rs \<and> 0 < days_between (record_date (last rs)) (record_date (hd rs))
               \<and> truthy (height (hd rs)) \<and> truthy (height (last rs))
            then Some (rounding ((or_zero (height (last rs)) - or_zero (height (hd rs)))
                         / real_of_int (days_between (record_date (last rs)) (record_date (hd rs)))
                         * 30))
            else None)
         \<and> head_circumference_gain_per_month ins =
           (if 2 \<le> length rs \<and> 0 < days_between (record_date (last rs)) (record_date (hd rs))
               \<and> truthy (head_circumference (hd rs)) \<and> truthy (head_circumference (last rs))
            then Some (rounding ((or_zero (head_circumference (last rs))
                                    - or_zero (head_circumference (hd rs)))
                         / real_of_int (days_between (record_date (last rs)) (record_date (hd rs)))
                         * 30))
            else None)
         \<and> (\<forall>r0 r14. weight r0 = Some 5 \<and> weight r14 = Some 5.3
                \<and> days_between (record_date r14) (record_date r0) = 14
              \<longrightarrow> (5.3 - 5) / 14 * 7 * 1000 = (150 :: real)
                  \<and> map_sum id (map_option weight_gain_per_week)
                        (aggregate rounding today b tf [r0, r14])
                      = Inr (Some (Some (rounding 150))))
         \<and> (\<forall>r0 r14. weight r0 = Some 5 \<and> weight r14 = Some 5.3
                \<and> days_between (record_date r14) (record_date r0) = 14 \<and> rounding 150 = 150
              \<longrightarrow> map_sum id (map_option weight_gain_per_week)
                        (aggregate rounding today b tf [r0, r14])
                    = Inr (Some (Some 150)))"
proof -
  from assms have ne: "rs \<noteq> []"
    by (auto simp: aggregate_def)
  have rates: "weight_gain_per_week ins =
        rate_value rounding (2 \<le> length rs) (weight (hd rs)) (weight (last rs))
          (days_between (record_date (last rs)) (record_date (hd rs))) (\<lambda>g. g * 7 * 1000)"
    "height_gain_per_month ins =
        rate_value rounding (2 \<le> length rs) (height (hd rs)) (height (last rs))
          (days_between (record_date (last rs)) (record_date (hd rs))) (\<lambda>g. g * 30)"
    "head_circumference_gain_per_month ins =
        rate_value rounding (2 \<le> length rs) (head_circumference (hd rs)) (head_circumference (last rs))
          (days_between (record_date (last rs)) (record_date (hd rs))) (\<lambda>g. g * 30)"
    using assms unfolding aggregate_eq[OF ne] by auto
  have quotient: "(5.3 - 5) / 14 * 7 * 1000 = (150 :: real)"
    by simp
  have example: "map_sum id (map_option weight_gain_per_week) (aggregate rounding today b tf [r0, r14])
                   = Inr (Some (Some (rounding 150)))"
    if "weight r0 = Some 5" "weight r14 = Some 5.3"
       "days_between (record_date r14) (record_date r0) = 14" for r0 r14
    using that by (simp add: aggregate_eq truthy_def or_zero_def)
  have rounded: "map_sum id (map_option weight_gain_per_week) (aggregate rounding today b tf [r0, r14])
                   = Inr (Some (Some 150))"
    if "weight r0 = Some 5" "weight r14 = Some 5.3"
       "days_between (record_date r14) (record_date r0) = 14" "rounding 150 = 150" for r0 r14
    using example[OF that(1,2,3)] that(4) by simp
  from rates quotient example rounded show ?thesis
    by blast
qed

theorem growth_rates_two_point_witness:
  "\<exists>ins. aggregate (\<lambda>x. real_of_int \<lfloor>x * 10 + 1 / 2\<rfloor> / 10)
            \<lparr>year = 2024, month = 3, day = 1\<rparr> test_baby ''all''
            [(blank_progress \<lparr>year = 2024, month = 1, day = 1\<rparr>)\<lparr>weight := Some 5\<rparr>,
             (blank_progress \<lparr>year = 2024, month = 1, day = 15\<rparr>)\<lparr>weight := Some 5.3\<rparr>]
          = Inr (Some ins)
        \<and> weight_gain_per_week ins = Some 150 \<and> height_gain_per_month ins = None"
proof -
  obtain ins where ins: "aggregate (\<lambda>x. real_of_int \<lfloor>x * 10 + 1 / 2\<rfloor> / 10)
            \<lparr>year = 2024, month = 3, day = 1\<rparr> test_baby ''all''
            [(blank_progress \<lparr>year = 2024, month = 1, day = 1\<rparr>)\<lparr>weight := Some 5\<rparr>,
             (blank_progress \<lparr>year = 2024, month = 1, day = 15\<rparr>)\<lparr>weight := Some 5.3\<rparr>]
          = Inr (Some ins)"
    by (simp add: aggregate_eq)
  have days: "days_between \<lparr>year = 2024, month = 1, day = 15\<rparr> \<lparr>year = 2024, month = 1, day = 1\<rparr> = 14"
    by (simp add: days_between_def toordinal_def days_before_year_def days_before_month_def is_leap_def)
  have fl: "\<lfloor>3001 / 2 :: real\<rfloor> = 1500"
    by (simp add: floor_eq_iff)
  from growth_rates_two_point [OF ins] days fl
  have "weight_gain_per_week ins = Some 150 \<and> height_gain_per_month ins = None"
    by (simp add: blank_progress_def truthy_def or_zero_def)
  with ins show ?thesis
    by blast
qed

text \<open>
  Claim C9, at two records with the developmental scores 0 and 100, both present: the
  average reported is 100, the record with the score 0 being left out of the mean
  (the mean over the records where the field is present is 50). With the one record of
  score 0 alone the average is unset although the field is present.
\<close>

theorem average_skips_zero_score:
  "map_sum id (map_option development_average_score)
     (aggregate (\<lambda>x. real_of_int \<lfloor>x * 10 + 1 / 2\<rfloor> / 10)
            \<lparr>year = 2024, month = 3, day = 1\<rparr> test_baby ''all''
        [(blank_progress \<lparr>year = 2024, month = 1, day = 1\<rparr>)\<lparr>developmental_score := Some 0\<rparr>,
         (blank_progress \<lparr>year = 2024, month = 1, day = 15\<rparr>)\<lparr>developmental_score := Some 100\<rparr>])
     = Inr (Some (Some 100))
   \<and> map_sum id (map_option development_average_score)
     (aggregate (\<lambda>x. real_of_int \<lfloor>x * 10 + 1 / 2\<rfloor> / 10)
            \<lparr>year = 2024, month = 3, day = 1\<rparr> test_baby ''all''
        [(blank_progress \<lparr>year = 2024, month = 1, day = 1\<rparr>)\<lparr>developmental_score := Some 0\<rparr>])
     = Inr (Some None)"
  by (simp add: aggregate_eq truthy_def or_zero_def)

text \<open>
  A developmental score of 0 is a score the processor produces: a baby of one month
  with a single milestone that matches nothing in the catalogue.
\<close>

lemma developmental_score_zero:
  "calculate_developmental_score parse
     [\<lparr>ms_milestone = ''xyz'', ms_achieved_date = NoDate, ms_notes = None\<rparr>] 1 test_baby = Inr 0"
  by (simp add: calculate_developmental_score_def expected_milestones_def lower_def lower_char_def
        milestone_bonus_def py_div_ok ebind_Inr Let_def)

subsection \<open>Record processor\<close>

lemma ebind_InrE: "ebind m f = Inr y \<Longrightarrow> \<exists>x. m = Inr x \<and> f x = Inr y"
  by (cases m) (simp_all add: ebind_def)

lemma growth_step_frame:
  assumes "growth_step b p = Inr p'"
  shows "p' = p\<lparr>growth_percentile := growth_percentile p'\<rparr>"
    and "weight p = None \<and> height p = None \<and> head_circumference p = None \<Longrightarrow> p' = p"
  using assms by (auto simp: growth_step_def dest!: ebind_InrE split: if_splits)

lemma sleep_step_frame:
  assumes "sleep_step e p = Inr p'"
  shows "p' = p\<lparr>sleep_quality_index := sleep_quality_index p'\<rparr>"
    and "\<not> json_truthy (sleep_schedule p) \<Longrightarrow> p' = p"
  using assms by (auto simp: sleep_step_def dest!: ebind_InrE split: if_splits option.splits)

lemma feeding_step_frame:
  assumes "feeding_step e a p = Inr p'"
  shows "p' = p\<lparr>feeding_efficiency := feeding_efficiency p'\<rparr>"
    and "\<not> json_truthy (feeding_times p) \<Longrightarrow> p' = p"
  using assms by (auto simp: feeding_step_def dest!: ebind_InrE split: if_splits option.splits)

lemma development_step_frame:
  assumes "development_step e a b p = Inr p'"
  shows "p' = p\<lparr>developmental_score := developmental_score p'\<rparr>"
    and "\<not> json_truthy (milestones p) \<Longrightarrow> p' = p"
  using assms by (auto simp: development_step_def dest!: ebind_InrE split: if_splits option.splits)

text \<open>A run that returns either found no baby or went through the four blocks in order.\<close>

lemma process_steps:
  assumes "process_baby_progress e p arg = Inr p'"
  shows "p' = p \<or> (\<exists>b p1 p2 p3. growth_step b p = Inr p1 \<and> sleep_step e p1 = Inr p2
      \<and> feeding_step e (calculate_age_in_months (date_of_birth b) (record_date p)) p2 = Inr p3
      \<and> development_step e (calculate_age_in_months (date_of_birth b) (record_date p)) b p3 = Inr p')"
  using assms
  by (auto simp: process_baby_progress_def Let_def dest!: ebind_InrE split: option.splits)

lemmas process_defs =
  process_baby_progress_def growth_step_def sleep_step_def feeding_step_def development_step_def
  blank_progress_def env_at_def json_truthy_def json_data_def Let_def

lemma open_session_index:
  "calculate_sleep_quality_index 82800000000 [open_session] = Inr (440 / 7)"
  "calculate_sleep_quality_index 108000000000 [open_session] = Inr (580 / 7)"
  by (simp_all add: calculate_sleep_quality_index_def sleep_entry_of_def open_session_def
        total_seconds_def hour_def quality_weight_def py_div_ok ebind_Inr Let_def)


text \<open>
  Claim C10. A run of the processor that returns changes at most the four derived
  fields: the result is the input record with these four fields replaced, so every raw
  input, both identities and the record date are as before. A derived field whose raw
  input is absent or empty (no measurement at all; a schedule, feeding or milestone
  column that is unset, an empty list or an empty string) keeps its prior value.
\<close>

theorem processor_frame:
  assumes "process_baby_progress e p arg = Inr p'"
  shows "p' = p\<lparr>growth_percentile := growth_percentile p',
                 sleep_quality_index := sleep_quality_index p',
                 feeding_efficiency := feeding_efficiency p',
                 developmental_score := developmental_score p'\<rparr>
     \<and> (weight p = None \<and> height p = None \<and> head_circumference p = None
          \<longrightarrow> growth_percentile p' = growth_percentile p)
     \<and> (\<not> json_truthy (sleep_schedule p) \<longrightarrow> sleep_quality_index p' = sleep_quality_index p)
     \<and> (\<not> json_truthy (feeding_times p) \<longrightarrow> feeding_efficiency p' = feeding_efficiency p)
     \<and> (\<not> json_truthy (milestones p) \<longrightarrow> developmental_score p' = developmental_score p)"
proof -
  from process_steps[OF assms] show ?thesis
  proof
    assume "p' = p"
    then show ?thesis by simp
  next
    assume "\<exists>b p1 p2 p3. growth_step b p = Inr p1 \<and> sleep_step e p1 = Inr p2
      \<and> feeding_step e (calculate_age_in_months (date_of_birth b) (record_date p)) p2 = Inr p3
      \<and> development_step e (calculate_age_in_months (date_of_birth b) (record_date p)) b p3 = Inr p'"
    then obtain b p1 p2 p3 where g: "growth_step b p = Inr p1" and s: "sleep_step e p1 = Inr p2"
      and f: "feeding_step e (calculate_age_in_months (date_of_birth b) (record_date p)) p2 = Inr p3"
      and d: "development_step e (calculate_age_in_months (date_of_birth b) (record_date p)) b p3 = Inr p'"
      by blast
    note G = growth_step_frame[OF g] and S = sleep_step_frame[OF s]
      and F = feeding_step_frame[OF f] and D = development_step_frame[OF d]
    have 1: "p' = p\<lparr>growth_percentile := growth_percentile p1,
                 sleep_quality_index := sleep_quality_index p2,
                 feeding_efficiency := feeding_efficiency p3,
                 developmental_score := developmental_score p'\<rparr>"
      by (subst D(1), subst F(1), subst S(1), subst G(1)) simp
    have sel: "growth_percentile p' = growth_percentile p1"
      "sleep_quality_index p' = sleep_quality_index p2"
      "feeding_efficiency p' = feeding_efficiency p3"
      by (subst 1, simp)+
    have r1: "sleep_schedule p1 = sleep_schedule p" "sleep_quality_index p1 = sleep_quality_index p"
      by (subst G(1), simp)+
    have r2: "feeding_times p2 = feeding_times p" "feeding_efficiency p2 = feeding_efficiency p"
      by (subst S(1), subst G(1), simp)+
    have r3: "milestones p3 = milestones p" "developmental_score p3 = developmental_score p"
      by (subst F(1), subst S(1), subst G(1), simp)+
    have k1: "growth_percentile p' = growth_percentile p"
      if "weight p = None \<and> height p = None \<and> head_circumference p = None"
      using G(2)[OF that] sel(1) by simp
    have k2: "sleep_quality_index p' = sleep_quality_index p" if "\<not> json_truthy (sleep_schedule p)"
      using S(2) that r1 sel(2) by simp
    have k3: "feeding_efficiency p' = feeding_efficiency p" if "\<not> json_truthy (feeding_times p)"
      using F(2) that r2 sel(3) by simp
    have k4: "developmental_score p' = developmental_score p" if "\<not> json_truthy (milestones p)"
      using D(2) that r3 by simp
    have 2: "p' = p\<lparr>growth_percentile := growth_percentile p',
                 sleep_quality_index := sleep_quality_index p',
                 feeding_efficiency := feeding_efficiency p',
                 developmental_score := developmental_score p'\<rparr>"
      using 1 sel by simp
    from 2 k1 k2 k3 k4 show ?thesis by blast
  qed
qed

theorem processor_frame_witness:
  "\<exists>p'. process_baby_progress (env_at 82800000000)
           ((blank_progress \<lparr>year = 2024, month = 3, day = 1\<rparr>)
              \<lparr>sleep_schedule := Some (JList [open_session]), feeding_efficiency := Some 40\<rparr>)
           (Some test_baby) = Inr p'
        \<and> sleep_quality_index p' = Some (440 / 7)
        \<and> feeding_efficiency p' = Some 40 \<and> growth_percentile p' = None
        \<and> developmental_score p' = None
        \<and> sleep_schedule p' = Some (JList [open_session])"
proof -
  obtain p' where run: "process_baby_progress (env_at 82800000000)
           ((blank_progress \<lparr>year = 2024, month = 3, day = 1\<rparr>)
              \<lparr>sleep_schedule := Some (JList [open_session]), feeding_efficiency := Some 40\<rparr>)
           (Some test_baby) = Inr p'"
    by (simp add: process_defs ebind_def open_session_index split: sum.splits)
  have idx: "sleep_quality_index p' = Some (440 / 7)"
    using run by (auto simp add: process_defs ebind_def open_session_index split: sum.splits)
  note frame = processor_frame [OF run]
  have kept: "feeding_efficiency p' = Some 40 \<and> growth_percentile p' = None
        \<and> developmental_score p' = None"
    using frame by (simp add: blank_progress_def json_truthy_def)
  have raw: "sleep_schedule p' = Some (JList [open_session])"
    using arg_cong [OF frame [THEN conjunct1], of sleep_schedule]
    by (simp add: blank_progress_def)
  from run idx kept raw show ?thesis
    by blast
qed








subsection \<open>Range of the list scorers\<close>

text \<open>
  The sleep, feeding and developmental scorers return, on every input, a value between
  0 and 100.
\<close>

lemma ebind_range:
  "\<exists>v. m = Inr v \<Longrightarrow> (\<And>v. \<exists>w. f v = Inr w \<and> 0 \<le> w \<and> w \<le> (100::real))
     \<Longrightarrow> \<exists>w. ebind m f = Inr w \<and> 0 \<le> w \<and> w \<le> 100"
  by (auto simp: ebind_def)

lemma if_range:
  "(c \<Longrightarrow> \<exists>w. a = Inr w \<and> 0 \<le> w \<and> w \<le> (100::real))
   \<Longrightarrow> (\<not> c \<Longrightarrow> \<exists>w. b = Inr w \<and> 0 \<le> w \<and> w \<le> 100)
   \<Longrightarrow> \<exists>w. (if c then a else b) = Inr w \<and> 0 \<le> w \<and> w \<le> 100"
  by simp

lemma clamp_range:
  "\<exists>w. Inr (min 100 (max 0 x)) = (Inr w :: error + real) \<and> 0 \<le> w \<and> w \<le> 100"
  by simp

lemma sentinel_range: "\<exists>w. Inr 50 = (Inr w :: error + real) \<and> 0 \<le> w \<and> w \<le> 100"
  by simp

lemma sleep_range: "\<exists>w. calculate_sleep_quality_index t ss = Inr w \<and> 0 \<le> w \<and> w \<le> 100"
  unfolding calculate_sleep_quality_index_def Let_def
  apply (intro if_range ebind_range if_total py_div_total Inr_total clamp_range sentinel_range)
  apply simp_all
  done

lemma feeding_range: "\<exists>w. calculate_feeding_efficiency fs a = Inr w \<and> 0 \<le> w \<and> w \<le> 100"
proof -
  have e1: "fst (expected_feeding a) \<noteq> 0" and e2: "snd (expected_feeding a) \<noteq> 0"
    using expected_feeding_pos[of a] by simp_all
  show ?thesis
    unfolding calculate_feeding_efficiency_def Let_def
    apply (intro if_range ebind_range if_total ebind_total py_div_total Inr_total type_score_total
             clamp_range sentinel_range)
    apply (simp_all add: e1 e2)
    done
qed

lemma early_bonus_nonneg: "0 \<le> early_bonus l a cat"
  by (induction l a cat rule: early_bonus.induct) auto

lemma milestone_bonus_nonneg: "0 \<le> milestone_bonus parse b m"
  by (simp add: milestone_bonus_def early_bonus_nonneg split: option.splits achieved.splits)

lemma bonus_sum_nonneg: "0 \<le> sum_list (map (milestone_bonus parse b) ms)"
  by (rule sum_list_nonneg) (auto simp: milestone_bonus_nonneg)

lemma developmental_range:
  "\<exists>w. calculate_developmental_score parse ms a b = Inr w \<and> 0 \<le> w \<and> w \<le> 100"
  using bonus_sum_nonneg[of parse b ms]
  by (simp add: calculate_developmental_score_def Let_def py_div_ok ebind_Inr)

end
